theory Spec2Isabelle
  imports Main
begin

section \<open>The AWS client configuration endpoint (path\_config\_client.go)\<close>

subsection \<open>Data model\<close>

text \<open>The operation kinds of \<^verbatim>\<open>logical.Operation\<close> that the path registers callbacks for.\<close>

datatype Operation = CreateOperation | UpdateOperation | DeleteOperation | ReadOperation

text \<open>\<^verbatim>\<open>type clientConfig struct\<close>: three Go strings (byte sequences).\<close>

record clientConfig =
  AccessKey :: string
  SecretKey :: string
  Endpoint :: string

text \<open>Go errors are opaque values; the model keeps their origin and their message.\<close>

datatype error = StorageError string | DecodeError string | EncodeError string

text \<open>\<^verbatim>\<open>logical.StorageEntry\<close>: a key and the stored bytes.\<close>

record StorageEntry =
  Key :: string
  Value :: string

text \<open>\<^verbatim>\<open>logical.Response\<close>, of which the endpoint only fills \<^verbatim>\<open>Data\<close>.\<close>

record Response =
  Data :: "string \<rightharpoonup> string"

text \<open>
  What one call does to its collaborators, in the order it does it: the operations on
  \<^verbatim>\<open>b.configMutex\<close>, the calls of the storage adapter and the flush of the cached
  EC2 clients.
\<close>

datatype event =
    Lock | Unlock | RLock | RUnlock
  | StorageGet string | StoragePut string string | StorageDelete string
  | Flush

text \<open>
  Modelled from the spec: the persistence adapter (\<^verbatim>\<open>logical.Storage\<close>), an interface
  whose implementation is not part of this file. It is a key-addressed store with
  Get, Put and Delete, each of which either succeeds or returns an I/O error; deleting
  an absent key succeeds. The three \<open>Err\<close> fields say which calls of the adapter fail,
  and with which error.
\<close>

record Storage =
  entries :: "string \<rightharpoonup> string"
  GetErr :: "error option"
  PutErr :: "error option"
  DeleteErr :: "error option"

text \<open>
  The state a request handler works on: the storage of the request, the regions that have
  a cached EC2 client in the backend, and the trace of events so far.
\<close>

record state =
  storage :: Storage
  clientCache :: "string list"
  trace :: "event list"

text \<open>
  Modelled from the spec: the request of the routing layer. \<^verbatim>\<open>req.Operation\<close> is the
  operation kind; \<^verbatim>\<open>framework.FieldData\<close> exposes, per field, whether it was explicitly
  supplied and, if so, its string value.
\<close>

record Request =
  Operation :: Operation
  Raw :: "string \<rightharpoonup> string"

subsection \<open>The field schema\<close>

text \<open>The \<^verbatim>\<open>Default\<close> of each \<^verbatim>\<open>framework.FieldSchema\<close> in \<^verbatim>\<open>pathConfigClient\<close>.\<close>

definition schemaDefault :: "string \<Rightarrow> string" where
  "schemaDefault k =
     (if k = ''access_key'' then ''''
      else if k = ''secret_key'' then ''''
      else if k = ''endpoint'' then ''''
      else '''')"

text \<open>\<^verbatim>\<open>data.GetOk(k)\<close>: the supplied value, when there is one.\<close>

definition GetOk :: "Request \<Rightarrow> string \<Rightarrow> string option" where
  "GetOk data k = Raw data k"

text \<open>\<^verbatim>\<open>data.Get(k)\<close>: the supplied value, or the default of the schema.\<close>

definition Get :: "Request \<Rightarrow> string \<Rightarrow> string" where
  "Get data k = (case Raw data k of Some v \<Rightarrow> v | None \<Rightarrow> schemaDefault k)"

subsection \<open>The record codec\<close>

definition dquote :: char where
  "dquote = CHR 0x22"

definition bslash :: char where
  "bslash = CHR 0x5C"

text \<open>
  Modelled from the spec: the codec behind \<^verbatim>\<open>logical.StorageEntryJSON\<close> and
  \<^verbatim>\<open>entry.DecodeJSON\<close>, which are not part of this file. The record is serialized as a
  structured object with exactly three named string fields; the names are those of the
  \<^verbatim>\<open>json\<close> tags of \<^verbatim>\<open>clientConfig\<close>. Inside a string, the quote and the
  backslash are escaped with a backslash.
\<close>

fun escape :: "string \<Rightarrow> string" where
  "escape [] = []"
| "escape (c # cs) =
     (if c = dquote \<or> c = bslash then bslash # c # escape cs else c # escape cs)"

definition member :: "string \<Rightarrow> string \<Rightarrow> string" where
  "member k v = dquote # k @ [dquote] @ '':'' @ [dquote] @ escape v @ [dquote]"

definition encode :: "clientConfig \<Rightarrow> string" where
  "encode r =
     ''{'' @ member ''access_key'' (AccessKey r) @ '','' @
     member ''secret_key'' (SecretKey r) @ '','' @
     member ''endpoint'' (Endpoint r) @ ''}''"

text \<open>\<open>expect p s\<close> reads the literal \<open>p\<close> at the front of \<open>s\<close> and returns the rest.\<close>

fun expect :: "string \<Rightarrow> string \<Rightarrow> string option" where
  "expect [] s = Some s"
| "expect (p # ps) [] = None"
| "expect (p # ps) (c # cs) = (if p = c then expect ps cs else None)"

text \<open>\<open>unquote s\<close> reads an escaped string up to its closing quote.\<close>

fun unquote :: "string \<Rightarrow> (string \<times> string) option" where
  "unquote [] = None"
| "unquote (c # cs) =
     (if c = dquote then Some ([], cs)
      else if c = bslash then
        (case cs of
           [] \<Rightarrow> None
         | d # ds \<Rightarrow>
             (case unquote ds of None \<Rightarrow> None | Some (v, rest) \<Rightarrow> Some (d # v, rest)))
      else
        (case unquote cs of None \<Rightarrow> None | Some (v, rest) \<Rightarrow> Some (c # v, rest)))"

definition parseMember :: "string \<Rightarrow> string \<Rightarrow> (string \<times> string) option" where
  "parseMember k s =
     (case expect (dquote # k @ [dquote] @ '':'' @ [dquote]) s of
        None \<Rightarrow> None
      | Some s1 \<Rightarrow> unquote s1)"

definition decode :: "string \<Rightarrow> clientConfig option" where
  "decode b =
     (case expect ''{'' b of
        None \<Rightarrow> None
      | Some b1 \<Rightarrow>
     (case parseMember ''access_key'' b1 of
        None \<Rightarrow> None
      | Some (a, b2) \<Rightarrow>
     (case expect '','' b2 of
        None \<Rightarrow> None
      | Some b3 \<Rightarrow>
     (case parseMember ''secret_key'' b3 of
        None \<Rightarrow> None
      | Some (s, b4) \<Rightarrow>
     (case expect '','' b4 of
        None \<Rightarrow> None
      | Some b5 \<Rightarrow>
     (case parseMember ''endpoint'' b5 of
        None \<Rightarrow> None
      | Some (e, b6) \<Rightarrow>
          if b6 = ''}''
          then Some \<lparr>AccessKey = a, SecretKey = s, Endpoint = e\<rparr>
          else None))))))"

text \<open>\<^verbatim>\<open>logical.StorageEntryJSON(k, v)\<close>: the entry for key \<open>k\<close> holding the encoding of \<open>v\<close>.\<close>

definition StorageEntryJSON :: "string \<Rightarrow> clientConfig \<Rightarrow> error + StorageEntry" where
  "StorageEntryJSON k v = Inr \<lparr>Key = k, Value = encode v\<rparr>"

text \<open>\<^verbatim>\<open>entry.DecodeJSON(&result)\<close>: the record, or the decode error.\<close>

definition DecodeJSON :: "StorageEntry \<Rightarrow> error + clientConfig" where
  "DecodeJSON entry =
     (case decode (Value entry) of
        None \<Rightarrow> Inl (DecodeError (Value entry))
      | Some result \<Rightarrow> Inr result)"

text \<open>
  \<^verbatim>\<open>structs.New(clientConfig).Map()\<close>: the fields under the names of their
  \<^verbatim>\<open>structs\<close> tags.
\<close>

definition structsMap :: "clientConfig \<Rightarrow> (string \<rightharpoonup> string)" where
  "structsMap c =
     [''access_key'' \<mapsto> AccessKey c, ''secret_key'' \<mapsto> SecretKey c, ''endpoint'' \<mapsto> Endpoint c]"

subsection \<open>The collaborators\<close>

definition emit :: "event \<Rightarrow> state \<Rightarrow> state" where
  "emit e s = s\<lparr>trace := trace s @ [e]\<rparr>"

text \<open>\<^verbatim>\<open>s.Get(k)\<close>\<close>

definition storageGet :: "string \<Rightarrow> state \<Rightarrow> (error + StorageEntry option) \<times> state" where
  "storageGet k s =
     (let s1 = emit (StorageGet k) s in
      case GetErr (storage s) of
        Some err \<Rightarrow> (Inl err, s1)
      | None \<Rightarrow>
          (case entries (storage s) k of
             None \<Rightarrow> (Inr None, s1)
           | Some v \<Rightarrow> (Inr (Some \<lparr>Key = k, Value = v\<rparr>), s1)))"

text \<open>\<^verbatim>\<open>s.Put(entry)\<close>\<close>

definition storagePut :: "StorageEntry \<Rightarrow> state \<Rightarrow> error option \<times> state" where
  "storagePut entry s =
     (let s1 = emit (StoragePut (Key entry) (Value entry)) s in
      case PutErr (storage s) of
        Some err \<Rightarrow> (Some err, s1)
      | None \<Rightarrow>
          (None, s1\<lparr>storage := (storage s1)\<lparr>entries := (entries (storage s1))(Key entry \<mapsto> Value entry)\<rparr>\<rparr>))"

text \<open>\<^verbatim>\<open>s.Delete(k)\<close>\<close>

definition storageDelete :: "string \<Rightarrow> state \<Rightarrow> error option \<times> state" where
  "storageDelete k s =
     (let s1 = emit (StorageDelete k) s in
      case DeleteErr (storage s) of
        Some err \<Rightarrow> (Some err, s1)
      | None \<Rightarrow>
          (None, s1\<lparr>storage := (storage s1)\<lparr>entries := (entries (storage s1))(k := None)\<rparr>\<rparr>))"

text \<open>
  Modelled from the spec: \<^verbatim>\<open>b.flushCachedEC2Clients()\<close>, defined elsewhere in the
  backend. It is synchronous and always succeeds, and evicts every cached client.
\<close>

definition flushCachedEC2Clients :: "state \<Rightarrow> state" where
  "flushCachedEC2Clients s = emit Flush (s\<lparr>clientCache := []\<rparr>)"

subsection \<open>The request handlers\<close>

text \<open>\<^verbatim>\<open>clientConfigEntryInternal\<close>: the version that does no locking.\<close>

definition clientConfigEntryInternal :: "state \<Rightarrow> (error + clientConfig option) \<times> state" where
  "clientConfigEntryInternal s =
     (case storageGet ''config/client'' s of
        (Inl err, s1) \<Rightarrow> (Inl err, s1)
      | (Inr None, s1) \<Rightarrow> (Inr None, s1)
      | (Inr (Some entry), s1) \<Rightarrow>
          (case DecodeJSON entry of
             Inl err \<Rightarrow> (Inl err, s1)
           | Inr result \<Rightarrow> (Inr (Some result), s1)))"

text \<open>
  \<^verbatim>\<open>clientConfigEntry\<close>: takes the read lock, and the deferred \<^verbatim>\<open>RUnlock\<close> runs when
  the function returns.
\<close>

definition clientConfigEntry :: "state \<Rightarrow> (error + clientConfig option) \<times> state" where
  "clientConfigEntry s =
     (let s1 = emit RLock s;
          (r, s2) = clientConfigEntryInternal s1
      in (r, emit RUnlock s2))"

text \<open>\<^verbatim>\<open>pathConfigClientExistenceCheck\<close>\<close>

definition pathConfigClientExistenceCheck :: "Request \<Rightarrow> state \<Rightarrow> (error + bool) \<times> state" where
  "pathConfigClientExistenceCheck req s =
     (case clientConfigEntry s of
        (Inl err, s1) \<Rightarrow> (Inl err, s1)
      | (Inr entry, s1) \<Rightarrow> (Inr (entry \<noteq> None), s1))"

text \<open>\<^verbatim>\<open>pathConfigClientRead\<close>; a nil response is \<open>None\<close>.\<close>

definition pathConfigClientRead :: "Request \<Rightarrow> state \<Rightarrow> (error + Response option) \<times> state" where
  "pathConfigClientRead req s =
     (case clientConfigEntry s of
        (Inl err, s1) \<Rightarrow> (Inl err, s1)
      | (Inr None, s1) \<Rightarrow> (Inr None, s1)
      | (Inr (Some clientConfig), s1) \<Rightarrow>
          (Inr (Some \<lparr>Data = structsMap clientConfig\<rparr>), s1))"

text \<open>
  \<^verbatim>\<open>pathConfigClientDelete\<close>: the deferred \<^verbatim>\<open>Unlock\<close> runs when the function
  returns, on either path.
\<close>

definition pathConfigClientDelete :: "Request \<Rightarrow> state \<Rightarrow> (error + Response option) \<times> state" where
  "pathConfigClientDelete req s =
     (let s1 = emit Lock s;
          (r, s2) =
            (case storageDelete ''config/client'' s1 of
               (Some err, s2) \<Rightarrow> (Inl err, s2)
             | (None, s2) \<Rightarrow> (Inr None, flushCachedEC2Clients s2))
      in (r, emit Unlock s2))"

text \<open>
  Lines 129 to 160 of \<^verbatim>\<open>pathConfigClientCreateUpdate\<close>: the three fields are merged
  into \<^verbatim>\<open>configEntry\<close> one after the other, and \<^verbatim>\<open>changedCreds\<close> is set when a
  supplied value differs from the current one.
\<close>

definition mergeFields :: "Request \<Rightarrow> clientConfig \<Rightarrow> clientConfig \<times> bool" where
  "mergeFields req configEntry0 =
     (let changedCreds0 = False;
          (configEntry1, changedCreds1) =
            (case GetOk req ''access_key'' of
               Some accessKeyStr \<Rightarrow>
                 if AccessKey configEntry0 \<noteq> accessKeyStr
                 then (configEntry0\<lparr>AccessKey := accessKeyStr\<rparr>, True)
                 else (configEntry0, changedCreds0)
             | None \<Rightarrow>
                 if Operation req = CreateOperation
                 then (configEntry0\<lparr>AccessKey := Get req ''access_key''\<rparr>, changedCreds0)
                 else (configEntry0, changedCreds0));
          (configEntry2, changedCreds2) =
            (case GetOk req ''secret_key'' of
               Some secretKeyStr \<Rightarrow>
                 if SecretKey configEntry1 \<noteq> secretKeyStr
                 then (configEntry1\<lparr>SecretKey := secretKeyStr\<rparr>, True)
                 else (configEntry1, changedCreds1)
             | None \<Rightarrow>
                 if Operation req = CreateOperation
                 then (configEntry1\<lparr>SecretKey := Get req ''secret_key''\<rparr>, changedCreds1)
                 else (configEntry1, changedCreds1));
          (configEntry3, changedCreds3) =
            (case GetOk req ''endpoint'' of
               Some endpointStr \<Rightarrow>
                 if Endpoint configEntry2 \<noteq> endpointStr
                 then (configEntry2\<lparr>Endpoint := endpointStr\<rparr>, True)
                 else (configEntry2, changedCreds2)
             | None \<Rightarrow>
                 if Operation req = CreateOperation
                 then (configEntry2\<lparr>Endpoint := Get req ''endpoint''\<rparr>, changedCreds2)
                 else (configEntry2, changedCreds2))
      in (configEntry3, changedCreds3))"

text \<open>
  \<^verbatim>\<open>pathConfigClientCreateUpdate\<close>: the body runs under the write lock, and the
  deferred \<^verbatim>\<open>Unlock\<close> runs when the function returns, on every path.
\<close>

text \<open>\<^verbatim>\<open>&clientConfig{}\<close>: the zero value of the struct.\<close>

definition zeroConfig :: clientConfig where
  "zeroConfig = \<lparr>AccessKey = '''', SecretKey = '''', Endpoint = ''''\<rparr>"

definition createUpdateBody :: "Request \<Rightarrow> state \<Rightarrow> (error + Response option) \<times> state" where
  "createUpdateBody req s1 =
     (case clientConfigEntryInternal s1 of
        (Inl err, s2) \<Rightarrow> (Inl err, s2)
      | (Inr loaded, s2) \<Rightarrow>
          (let configEntry0 =
                 (case loaded of
                    None \<Rightarrow> zeroConfig
                  | Some c \<Rightarrow> c);
               (configEntry, changedCreds) = mergeFields req configEntry0
           in case StorageEntryJSON ''config/client'' configEntry of
                Inl err \<Rightarrow> (Inl err, s2)
              | Inr entry \<Rightarrow>
                  (case storagePut entry s2 of
                     (Some err, s3) \<Rightarrow> (Inl err, s3)
                   | (None, s3) \<Rightarrow>
                       (Inr None, if changedCreds then flushCachedEC2Clients s3 else s3))))"

definition pathConfigClientCreateUpdate :: "Request \<Rightarrow> state \<Rightarrow> (error + Response option) \<times> state" where
  "pathConfigClientCreateUpdate req s =
     (let s1 = emit Lock s;
          (r, s2) = createUpdateBody req s1
      in (r, emit Unlock s2))"

subsection \<open>Observations\<close>

text \<open>What loading the record returns in a state: the error, no record, or the record.\<close>

definition stored :: "state \<Rightarrow> error + clientConfig option" where
  "stored s = fst (clientConfigEntryInternal s)"

text \<open>How often the cached clients have been flushed so far.\<close>

definition flushCount :: "state \<Rightarrow> nat" where
  "flushCount s = count_list (trace s) Flush"

text \<open>\<open>precedes a b evs\<close>: the event \<open>a\<close> occurs before the first \<open>b\<close> in \<open>evs\<close>.\<close>

definition precedes :: "event \<Rightarrow> event \<Rightarrow> event list \<Rightarrow> bool" where
  "precedes a b evs = (a \<in> set (takeWhile (\<lambda>e. e \<noteq> b) evs))"

text \<open>The three fields of the record, with their names in a request.\<close>

datatype field = FAccessKey | FSecretKey | FEndpoint

fun fieldName :: "field \<Rightarrow> string" where
  "fieldName FAccessKey = ''access_key''"
| "fieldName FSecretKey = ''secret_key''"
| "fieldName FEndpoint = ''endpoint''"

fun fieldOf :: "field \<Rightarrow> clientConfig \<Rightarrow> string" where
  "fieldOf FAccessKey c = AccessKey c"
| "fieldOf FSecretKey c = SecretKey c"
| "fieldOf FEndpoint c = Endpoint c"

text \<open>
  The two states of a backend: no record under the key, or the encoding of a record.
  The adapter has no fault, one client is cached and nothing has happened yet.
\<close>

definition unconfigured :: state where
  "unconfigured =
     \<lparr>storage = \<lparr>entries = Map.empty, GetErr = None, PutErr = None, DeleteErr = None\<rparr>,
      clientCache = [''us-east-1''], trace = []\<rparr>"

definition configured :: "clientConfig \<Rightarrow> state" where
  "configured c =
     \<lparr>storage = \<lparr>entries = [''config/client'' \<mapsto> encode c],
                 GetErr = None, PutErr = None, DeleteErr = None\<rparr>,
      clientCache = [''us-east-1''], trace = []\<rparr>"

text \<open>A state whose adapter fails as given, and a state whose stored bytes are no record.\<close>

definition failing :: "error option \<Rightarrow> error option \<Rightarrow> error option \<Rightarrow> state \<Rightarrow> state" where
  "failing g p d s = s\<lparr>storage := (storage s)\<lparr>GetErr := g, PutErr := p, DeleteErr := d\<rparr>\<rparr>"

definition corrupted :: state where
  "corrupted =
     \<lparr>storage = \<lparr>entries = [''config/client'' \<mapsto> ''garbage''],
                 GetErr = None, PutErr = None, DeleteErr = None\<rparr>,
      clientCache = [''us-east-1''], trace = []\<rparr>"

section \<open>Properties\<close>

subsection \<open>The codec\<close>

lemma expect_append: "expect p (p @ s) = Some s"
  by (induction p) simp_all

lemma unquote_escape: "unquote (escape v @ dquote # rest) = Some (v, rest)"
  by (induction v) (simp_all add: dquote_def bslash_def)

lemma parseMember_member: "parseMember k (member k v @ rest) = Some (v, rest)"
proof -
  have "member k v @ rest = (dquote # k @ [dquote] @ '':'' @ [dquote]) @ (escape v @ dquote # rest)"
    by (simp add: member_def)
  then show ?thesis
    unfolding parseMember_def by (simp only: expect_append option.case unquote_escape)
qed

lemma decode_encode: "decode (encode r) = Some r"
proof -
  define t2 where "t2 = '','' @ member ''endpoint'' (Endpoint r) @ ''}''"
  define t1 where "t1 = '','' @ member ''secret_key'' (SecretKey r) @ t2"
  have e: "encode r = ''{'' @ (member ''access_key'' (AccessKey r) @ t1)"
    by (simp add: encode_def t1_def t2_def)
  have s0: "expect ''{'' (encode r) = Some (member ''access_key'' (AccessKey r) @ t1)"
    unfolding e by (rule expect_append)
  have s1: "parseMember ''access_key'' (member ''access_key'' (AccessKey r) @ t1) = Some (AccessKey r, t1)"
    by (rule parseMember_member)
  have s2: "expect '','' t1 = Some (member ''secret_key'' (SecretKey r) @ t2)"
    unfolding t1_def by (rule expect_append)
  have s3: "parseMember ''secret_key'' (member ''secret_key'' (SecretKey r) @ t2) = Some (SecretKey r, t2)"
    by (rule parseMember_member)
  have s4: "expect '','' t2 = Some (member ''endpoint'' (Endpoint r) @ ''}'')"
    unfolding t2_def by (rule expect_append)
  have s5: "parseMember ''endpoint'' (member ''endpoint'' (Endpoint r) @ ''}'') = Some (Endpoint r, ''}'')"
    by (rule parseMember_member)
  show ?thesis
    unfolding decode_def by (simp add: s0 s1 s2 s3 s4 s5)
qed

subsection \<open>The merge of the request into the record\<close>

lemma mergeFields_AccessKey:
  "AccessKey (fst (mergeFields req c)) =
     (case Raw req ''access_key'' of Some v \<Rightarrow> v
      | None \<Rightarrow> if Operation req = CreateOperation then '''' else AccessKey c)"
  by (simp add: mergeFields_def GetOk_def Get_def schemaDefault_def Let_def
      split: option.splits prod.splits)

lemma mergeFields_SecretKey:
  "SecretKey (fst (mergeFields req c)) =
     (case Raw req ''secret_key'' of Some v \<Rightarrow> v
      | None \<Rightarrow> if Operation req = CreateOperation then '''' else SecretKey c)"
  by (simp add: mergeFields_def GetOk_def Get_def schemaDefault_def Let_def
      split: option.splits prod.splits)

lemma mergeFields_Endpoint:
  "Endpoint (fst (mergeFields req c)) =
     (case Raw req ''endpoint'' of Some v \<Rightarrow> v
      | None \<Rightarrow> if Operation req = CreateOperation then '''' else Endpoint c)"
  by (simp add: mergeFields_def GetOk_def Get_def schemaDefault_def Let_def
      split: option.splits prod.splits)

lemma mergeFields_field:
  "fieldOf f (fst (mergeFields req c)) =
     (case Raw req (fieldName f) of Some v \<Rightarrow> v
      | None \<Rightarrow> if Operation req = CreateOperation then '''' else fieldOf f c)"
  by (cases f)
     (simp_all add: mergeFields_AccessKey mergeFields_SecretKey mergeFields_Endpoint
       split: option.splits)

lemma mergeFields_changed:
  "snd (mergeFields req c) =
     ((\<exists>v. Raw req ''access_key'' = Some v \<and> v \<noteq> AccessKey c) \<or>
      (\<exists>v. Raw req ''secret_key'' = Some v \<and> v \<noteq> SecretKey c) \<or>
      (\<exists>v. Raw req ''endpoint'' = Some v \<and> v \<noteq> Endpoint c))"
  by (auto simp add: mergeFields_def GetOk_def Get_def schemaDefault_def Let_def
      split: option.splits prod.splits)

lemma mergeFields_changed_field:
  "snd (mergeFields req c) = (\<exists>f v. Raw req (fieldName f) = Some v \<and> v \<noteq> fieldOf f c)"
proof -
  have "(\<exists>f v. Raw req (fieldName f) = Some v \<and> v \<noteq> fieldOf f c) =
     ((\<exists>v. Raw req ''access_key'' = Some v \<and> v \<noteq> AccessKey c) \<or>
      (\<exists>v. Raw req ''secret_key'' = Some v \<and> v \<noteq> SecretKey c) \<or>
      (\<exists>v. Raw req ''endpoint'' = Some v \<and> v \<noteq> Endpoint c))"
  proof
    assume "\<exists>f v. Raw req (fieldName f) = Some v \<and> v \<noteq> fieldOf f c"
    then obtain f v where h: "Raw req (fieldName f) = Some v" "v \<noteq> fieldOf f c" by blast
    then show "(\<exists>v. Raw req ''access_key'' = Some v \<and> v \<noteq> AccessKey c) \<or>
      (\<exists>v. Raw req ''secret_key'' = Some v \<and> v \<noteq> SecretKey c) \<or>
      (\<exists>v. Raw req ''endpoint'' = Some v \<and> v \<noteq> Endpoint c)"
      by (cases f) simp_all
  next
    assume "(\<exists>v. Raw req ''access_key'' = Some v \<and> v \<noteq> AccessKey c) \<or>
      (\<exists>v. Raw req ''secret_key'' = Some v \<and> v \<noteq> SecretKey c) \<or>
      (\<exists>v. Raw req ''endpoint'' = Some v \<and> v \<noteq> Endpoint c)"
    then show "\<exists>f v. Raw req (fieldName f) = Some v \<and> v \<noteq> fieldOf f c"
      by (metis fieldName.simps fieldOf.simps)
  qed
  then show ?thesis by (simp only: mergeFields_changed)
qed

subsection \<open>Loading the record\<close>

lemma load_emit:
  "fst (clientConfigEntryInternal (emit e s)) = fst (clientConfigEntryInternal s)"
  by (simp add: clientConfigEntryInternal_def storageGet_def emit_def Let_def
      split: option.splits sum.splits)

lemma load_state:
  "snd (clientConfigEntryInternal s) = emit (StorageGet ''config/client'') s"
  by (simp add: clientConfigEntryInternal_def storageGet_def emit_def Let_def
      split: option.splits sum.splits)

lemma load_locked:
  "clientConfigEntryInternal (emit e s) =
     (stored s, emit (StorageGet ''config/client'') (emit e s))"
  using load_emit[of e s] load_state[of "emit e s"]
  by (metis prod.collapse stored_def)

lemma stored_Inr_GetErr: "stored s = Inr l \<Longrightarrow> GetErr (storage s) = None"
  by (auto simp add: stored_def clientConfigEntryInternal_def storageGet_def Let_def
      split: option.splits sum.splits)

lemma stored_GetErr: "GetErr (storage s) = Some e \<Longrightarrow> stored s = Inl e"
  by (simp add: stored_def clientConfigEntryInternal_def storageGet_def Let_def)

lemma stored_absent:
  "GetErr (storage s) = None \<Longrightarrow> entries (storage s) ''config/client'' = None \<Longrightarrow>
   stored s = Inr None"
  by (simp add: stored_def clientConfigEntryInternal_def storageGet_def Let_def)

lemma stored_decoded:
  "GetErr (storage s) = None \<Longrightarrow> entries (storage s) ''config/client'' = Some b \<Longrightarrow>
   DecodeJSON \<lparr>Key = ''config/client'', Value = b\<rparr> = Inr c \<Longrightarrow> stored s = Inr (Some c)"
  by (simp add: stored_def clientConfigEntryInternal_def storageGet_def Let_def)

lemma stored_corrupt:
  "GetErr (storage s) = None \<Longrightarrow> entries (storage s) ''config/client'' = Some b \<Longrightarrow>
   DecodeJSON \<lparr>Key = ''config/client'', Value = b\<rparr> = Inl e \<Longrightarrow> stored s = Inl e"
  by (simp add: stored_def clientConfigEntryInternal_def storageGet_def Let_def)

lemma stored_encoded:
  "GetErr (storage s) = None \<Longrightarrow> entries (storage s) ''config/client'' = Some (encode c) \<Longrightarrow>
   stored s = Inr (Some c)"
  by (simp add: stored_def clientConfigEntryInternal_def storageGet_def Let_def
      DecodeJSON_def decode_encode)

subsection \<open>What each handler returns\<close>

lemma createUpdate_load_error:
  assumes "stored s = Inl e"
  shows "pathConfigClientCreateUpdate req s =
    (Inl e, s\<lparr>trace := trace s @ [Lock, StorageGet ''config/client'', Unlock]\<rparr>)"
  using assms
  by (simp add: pathConfigClientCreateUpdate_def createUpdateBody_def load_locked)
     (simp add: emit_def)

lemma createUpdate_put_error:
  assumes "stored s = Inr l"
    and "PutErr (storage s) = Some e"
  shows "pathConfigClientCreateUpdate req s =
    (Inl e, s\<lparr>trace := trace s @ [Lock, StorageGet ''config/client'',
        StoragePut ''config/client''
          (encode (fst (mergeFields req (case l of None \<Rightarrow> zeroConfig | Some c \<Rightarrow> c)))),
        Unlock]\<rparr>)"
  using assms
  by (simp add: pathConfigClientCreateUpdate_def createUpdateBody_def load_locked)
     (simp add: Let_def emit_def StorageEntryJSON_def storagePut_def split_beta)

lemma createUpdate_ok:
  assumes "stored s = Inr l"
    and "PutErr (storage s) = None"
    and "mergeFields req (case l of None \<Rightarrow> zeroConfig | Some c \<Rightarrow> c) = (c', ch)"
  shows "pathConfigClientCreateUpdate req s =
    (Inr None,
     s\<lparr>storage := (storage s)\<lparr>entries := (entries (storage s))(''config/client'' \<mapsto> encode c')\<rparr>,
       clientCache := (if ch then [] else clientCache s),
       trace := trace s @ [Lock, StorageGet ''config/client'', StoragePut ''config/client'' (encode c')]
                 @ (if ch then [Flush] else []) @ [Unlock]\<rparr>)"
  using assms
  by (simp add: pathConfigClientCreateUpdate_def createUpdateBody_def load_locked)
     (simp add: Let_def emit_def StorageEntryJSON_def storagePut_def flushCachedEC2Clients_def)

lemma delete_ok:
  assumes "DeleteErr (storage s) = None"
  shows "pathConfigClientDelete req s =
    (Inr None,
     s\<lparr>storage := (storage s)\<lparr>entries := (entries (storage s))(''config/client'' := None)\<rparr>,
       clientCache := [],
       trace := trace s @ [Lock, StorageDelete ''config/client'', Flush, Unlock]\<rparr>)"
  using assms
  by (simp add: pathConfigClientDelete_def storageDelete_def Let_def emit_def
      flushCachedEC2Clients_def)

lemma delete_error:
  assumes "DeleteErr (storage s) = Some e"
  shows "pathConfigClientDelete req s =
    (Inl e, s\<lparr>trace := trace s @ [Lock, StorageDelete ''config/client'', Unlock]\<rparr>)"
  using assms
  by (simp add: pathConfigClientDelete_def storageDelete_def Let_def emit_def
      flushCachedEC2Clients_def)

lemma read_eq:
  "pathConfigClientRead req s =
    (case stored s of
       Inl e \<Rightarrow> Inl e
     | Inr None \<Rightarrow> Inr None
     | Inr (Some c) \<Rightarrow> Inr (Some \<lparr>Data = structsMap c\<rparr>),
     s\<lparr>trace := trace s @ [RLock, StorageGet ''config/client'', RUnlock]\<rparr>)"
  by (simp add: pathConfigClientRead_def clientConfigEntry_def load_locked)
     (simp add: emit_def split: sum.splits option.splits)

lemma createUpdate_success:
  fixes req :: Request and l :: "clientConfig option"
  assumes "stored s = Inr l" and "PutErr (storage s) = None"
  defines "m \<equiv> mergeFields req (case l of None \<Rightarrow> zeroConfig | Some c \<Rightarrow> c)"
  shows "fst (pathConfigClientCreateUpdate req s) = Inr None"
    and "stored (snd (pathConfigClientCreateUpdate req s)) = Inr (Some (fst m))"
    and "flushCount (snd (pathConfigClientCreateUpdate req s)) =
           flushCount s + (if snd m then 1 else 0)"
    and "clientCache (snd (pathConfigClientCreateUpdate req s)) =
           (if snd m then [] else clientCache s)"
    and "trace (snd (pathConfigClientCreateUpdate req s)) =
           trace s @ [Lock, StorageGet ''config/client'', StoragePut ''config/client'' (encode (fst m))]
             @ (if snd m then [Flush] else []) @ [Unlock]"
proof -
  have m: "mergeFields req (case l of None \<Rightarrow> zeroConfig | Some c \<Rightarrow> c) = (fst m, snd m)"
    by (simp add: m_def)
  note eq = createUpdate_ok[OF assms(1,2) m]
  have g: "GetErr (storage s) = None" by (rule stored_Inr_GetErr[OF assms(1)])
  show "fst (pathConfigClientCreateUpdate req s) = Inr None" by (simp add: eq)
  show "stored (snd (pathConfigClientCreateUpdate req s)) = Inr (Some (fst m))"
    by (rule stored_encoded) (simp_all add: eq g)
  show "flushCount (snd (pathConfigClientCreateUpdate req s)) =
           flushCount s + (if snd m then 1 else 0)"
    by (simp add: eq flushCount_def)
  show "clientCache (snd (pathConfigClientCreateUpdate req s)) =
           (if snd m then [] else clientCache s)"
    by (simp add: eq)
  show "trace (snd (pathConfigClientCreateUpdate req s)) =
           trace s @ [Lock, StorageGet ''config/client'', StoragePut ''config/client'' (encode (fst m))]
             @ (if snd m then [Flush] else []) @ [Unlock]"
    by (simp add: eq)
qed

lemma config_eqI:
  "(\<And>f. fieldOf f a = fieldOf f b) \<Longrightarrow> a = (b::clientConfig)"
proof -
  assume h: "\<And>f. fieldOf f a = fieldOf f b"
  from h[of FAccessKey] h[of FSecretKey] h[of FEndpoint] show "a = b" by simp
qed

lemma createUpdate_faults:
  "GetErr (storage (snd (pathConfigClientCreateUpdate req s))) = GetErr (storage s) \<and>
   PutErr (storage (snd (pathConfigClientCreateUpdate req s))) = PutErr (storage s) \<and>
   DeleteErr (storage (snd (pathConfigClientCreateUpdate req s))) = DeleteErr (storage s)"
proof (cases "stored s")
  case (Inl e)
  then show ?thesis by (simp add: createUpdate_load_error)
next
  case (Inr l)
  show ?thesis
  proof (cases "PutErr (storage s)")
    case None
    obtain c' ch where "mergeFields req (case l of None \<Rightarrow> zeroConfig | Some c \<Rightarrow> c) = (c', ch)"
      by (cases "mergeFields req (case l of None \<Rightarrow> zeroConfig | Some c \<Rightarrow> c)")
    from createUpdate_ok[OF Inr None this] show ?thesis by simp
  next
    case (Some e)
    from createUpdate_put_error[OF Inr Some] show ?thesis by simp
  qed
qed

lemma mergeFields_record:
  "fst (mergeFields req c) =
     \<lparr>AccessKey = (case Raw req ''access_key'' of Some v \<Rightarrow> v
                   | None \<Rightarrow> if Operation req = CreateOperation then '''' else AccessKey c),
      SecretKey = (case Raw req ''secret_key'' of Some v \<Rightarrow> v
                   | None \<Rightarrow> if Operation req = CreateOperation then '''' else SecretKey c),
      Endpoint = (case Raw req ''endpoint'' of Some v \<Rightarrow> v
                   | None \<Rightarrow> if Operation req = CreateOperation then '''' else Endpoint c)\<rparr>"
  using mergeFields_AccessKey[of req c] mergeFields_SecretKey[of req c]
    mergeFields_Endpoint[of req c]
  by (cases "fst (mergeFields req c)") simp

lemma fieldOf_zeroConfig: "fieldOf f zeroConfig = ''''"
  by (cases f) (simp_all add: zeroConfig_def)

subsection \<open>A failing call changes nothing\<close>

lemma read_error_no_effect:
  "fst (pathConfigClientRead req s) = Inl e \<Longrightarrow>
   flushCount (snd (pathConfigClientRead req s)) = flushCount s \<and>
   clientCache (snd (pathConfigClientRead req s)) = clientCache s \<and>
   storage (snd (pathConfigClientRead req s)) = storage s"
  by (simp add: read_eq flushCount_def)

lemma createUpdate_error_no_effect:
  assumes "fst (pathConfigClientCreateUpdate req s) = Inl e"
  shows "flushCount (snd (pathConfigClientCreateUpdate req s)) = flushCount s \<and>
   clientCache (snd (pathConfigClientCreateUpdate req s)) = clientCache s \<and>
   storage (snd (pathConfigClientCreateUpdate req s)) = storage s"
proof (cases "stored s")
  case (Inl e')
  then show ?thesis by (simp add: createUpdate_load_error flushCount_def)
next
  case (Inr l)
  show ?thesis
  proof (cases "PutErr (storage s)")
    case None
    with assms createUpdate_success(1)[OF Inr None, of req] show ?thesis by simp
  next
    case (Some e')
    then show ?thesis by (simp add: createUpdate_put_error[OF Inr Some] flushCount_def)
  qed
qed

lemma delete_error_no_effect:
  assumes "fst (pathConfigClientDelete req s) = Inl e"
  shows "flushCount (snd (pathConfigClientDelete req s)) = flushCount s \<and>
   clientCache (snd (pathConfigClientDelete req s)) = clientCache s \<and>
   storage (snd (pathConfigClientDelete req s)) = storage s"
proof (cases "DeleteErr (storage s)")
  case None
  with assms show ?thesis by (simp add: delete_ok)
next
  case (Some e')
  then show ?thesis by (simp add: delete_error flushCount_def)
qed

subsection \<open>The sample states\<close>

lemma stored_unconfigured: "stored unconfigured = Inr None"
  by (rule stored_absent) (simp_all add: unconfigured_def)

lemma stored_configured: "stored (configured c) = Inr (Some c)"
  by (rule stored_encoded) (simp_all add: configured_def)

lemma flushCount_unconfigured: "flushCount unconfigured = 0"
  by (simp add: unconfigured_def flushCount_def)

lemma flushCount_configured: "flushCount (configured c) = 0"
  by (simp add: configured_def flushCount_def)

lemma decode_garbage: "DecodeJSON \<lparr>Key = ''config/client'', Value = ''garbage''\<rparr> = Inl (DecodeError ''garbage'')"
  by (simp add: DecodeJSON_def decode_def)

section \<open>The claims\<close>

text \<open>
  C1, the claim as it stands fails: in a Delete, and in an Upsert that changes a field,
  the flush comes before the unlock, which is deferred to the return; no unlock precedes
  the flush.
\<close>

theorem flush_precedes_unlock:
  "trace (snd (pathConfigClientDelete \<lparr>Operation = DeleteOperation, Raw = Map.empty\<rparr> unconfigured)) =
     [Lock, StorageDelete ''config/client'', Flush, Unlock] \<and>
   \<not> precedes Unlock Flush
     (trace (snd (pathConfigClientDelete \<lparr>Operation = DeleteOperation, Raw = Map.empty\<rparr> unconfigured))) \<and>
   trace (snd (pathConfigClientCreateUpdate
       \<lparr>Operation = CreateOperation, Raw = [''access_key'' \<mapsto> ''A1'']\<rparr> unconfigured)) =
     [Lock, StorageGet ''config/client'',
      StoragePut ''config/client'' (encode \<lparr>AccessKey = ''A1'', SecretKey = '''', Endpoint = ''''\<rparr>),
      Flush, Unlock] \<and>
   \<not> precedes Unlock Flush
     (trace (snd (pathConfigClientCreateUpdate
       \<lparr>Operation = CreateOperation, Raw = [''access_key'' \<mapsto> ''A1'']\<rparr> unconfigured)))"
proof -
  let ?rd = "\<lparr>Operation = DeleteOperation, Raw = Map.empty\<rparr>"
  let ?ru = "\<lparr>Operation = CreateOperation, Raw = [''access_key'' \<mapsto> ''A1'']\<rparr>"
  have t: "trace unconfigured = []" by (simp add: unconfigured_def)
  have d: "DeleteErr (storage unconfigured) = None" by (simp add: unconfigured_def)
  have p: "PutErr (storage unconfigured) = None" by (simp add: unconfigured_def)
  have td: "trace (snd (pathConfigClientDelete ?rd unconfigured)) =
     [Lock, StorageDelete ''config/client'', Flush, Unlock]"
    by (simp add: delete_ok[OF d] t)
  have tu: "trace (snd (pathConfigClientCreateUpdate ?ru unconfigured)) =
     [Lock, StorageGet ''config/client'',
      StoragePut ''config/client'' (encode \<lparr>AccessKey = ''A1'', SecretKey = '''', Endpoint = ''''\<rparr>),
      Flush, Unlock]"
    using createUpdate_success(5)[OF stored_unconfigured p, of ?ru]
    by (simp add: t mergeFields_record mergeFields_changed zeroConfig_def)
  show ?thesis
    unfolding td tu by (simp add: precedes_def)
qed

text \<open>
  C1, amended: every Delete and every Upsert takes the exclusive lock first and releases
  it last. The flush, when there is one, comes right after the storage Delete or Put has
  returned and before the unlock: it runs while the write lock is held.
\<close>

theorem flush_under_lock:
  "trace (snd (pathConfigClientDelete req s)) =
     trace s @
       (if DeleteErr (storage s) = None
        then [Lock, StorageDelete ''config/client'', Flush, Unlock]
        else [Lock, StorageDelete ''config/client'', Unlock]) \<and>
   trace (snd (pathConfigClientCreateUpdate req s)) =
     trace s @
       (case stored s of
          Inl e \<Rightarrow> [Lock, StorageGet ''config/client'', Unlock]
        | Inr l \<Rightarrow>
            [Lock, StorageGet ''config/client'',
             StoragePut ''config/client''
               (encode (fst (mergeFields req (case l of None \<Rightarrow> zeroConfig | Some c \<Rightarrow> c))))] @
            (if PutErr (storage s) = None \<and>
                snd (mergeFields req (case l of None \<Rightarrow> zeroConfig | Some c \<Rightarrow> c))
             then [Flush] else []) @
            [Unlock])"
proof -
  have d: "trace (snd (pathConfigClientDelete req s)) =
     trace s @
       (if DeleteErr (storage s) = None
        then [Lock, StorageDelete ''config/client'', Flush, Unlock]
        else [Lock, StorageDelete ''config/client'', Unlock])"
  proof (cases "DeleteErr (storage s)")
    case None
    then show ?thesis by (simp add: delete_ok)
  next
    case (Some e)
    then show ?thesis by (simp add: delete_error)
  qed
  have u: "trace (snd (pathConfigClientCreateUpdate req s)) =
     trace s @
       (case stored s of
          Inl e \<Rightarrow> [Lock, StorageGet ''config/client'', Unlock]
        | Inr l \<Rightarrow>
            [Lock, StorageGet ''config/client'',
             StoragePut ''config/client''
               (encode (fst (mergeFields req (case l of None \<Rightarrow> zeroConfig | Some c \<Rightarrow> c))))] @
            (if PutErr (storage s) = None \<and>
                snd (mergeFields req (case l of None \<Rightarrow> zeroConfig | Some c \<Rightarrow> c))
             then [Flush] else []) @
            [Unlock])"
  proof (cases "stored s")
    case (Inl e)
    then show ?thesis by (simp add: createUpdate_load_error)
  next
    case (Inr l)
    show ?thesis
    proof (cases "PutErr (storage s)")
      case None
      with Inr createUpdate_success(5)[OF Inr None, of req] show ?thesis by simp
    next
      case (Some e)
      with Inr createUpdate_put_error[OF Inr Some, of req] show ?thesis by simp
    qed
  qed
  from d u show ?thesis by (rule conjI)
qed

text \<open>
  C2, the claim as it stands fails: on the same stored record and with no field supplied,
  a call of kind \<open>CreateOperation\<close> resets every field to the empty string and a call
  of kind \<open>UpdateOperation\<close> keeps the record. The defaulting follows the operation
  kind of the request, not the presence of a record.
\<close>

theorem operation_kind_decides_defaulting:
  "stored (configured \<lparr>AccessKey = ''A1'', SecretKey = ''S1'', Endpoint = ''http://custom''\<rparr>) =
     Inr (Some \<lparr>AccessKey = ''A1'', SecretKey = ''S1'', Endpoint = ''http://custom''\<rparr>) \<and>
   stored (snd (pathConfigClientCreateUpdate
      \<lparr>Operation = CreateOperation, Raw = Map.empty\<rparr>
      (configured \<lparr>AccessKey = ''A1'', SecretKey = ''S1'', Endpoint = ''http://custom''\<rparr>))) =
     Inr (Some \<lparr>AccessKey = '''', SecretKey = '''', Endpoint = ''''\<rparr>) \<and>
   stored (snd (pathConfigClientCreateUpdate
      \<lparr>Operation = UpdateOperation, Raw = Map.empty\<rparr>
      (configured \<lparr>AccessKey = ''A1'', SecretKey = ''S1'', Endpoint = ''http://custom''\<rparr>))) =
     Inr (Some \<lparr>AccessKey = ''A1'', SecretKey = ''S1'', Endpoint = ''http://custom''\<rparr>)"
proof -
  let ?c = "\<lparr>AccessKey = ''A1'', SecretKey = ''S1'', Endpoint = ''http://custom''\<rparr>"
  have p: "PutErr (storage (configured ?c)) = None" by (simp add: configured_def)
  show ?thesis
    using createUpdate_success(2)[OF stored_configured p, of "\<lparr>Operation = CreateOperation, Raw = Map.empty\<rparr>"]
      createUpdate_success(2)[OF stored_configured p, of "\<lparr>Operation = UpdateOperation, Raw = Map.empty\<rparr>"]
    by (simp add: mergeFields_record stored_configured)
qed

text \<open>
  C2, amended: Upsert loads the record under the exclusive lock and starts from the
  zero-valued record when none is stored. In the stored result a supplied field has the
  supplied value; a field that is not supplied is the empty-string default when the
  operation kind of the request is \<open>CreateOperation\<close>, and otherwise keeps its loaded
  value (the empty string when no record was stored).
\<close>

theorem defaulting_follows_operation:
  assumes "stored s = Inr l" and "PutErr (storage s) = None"
  shows "\<exists>r'. fst (pathConfigClientCreateUpdate req s) = Inr None \<and>
           stored (snd (pathConfigClientCreateUpdate req s)) = Inr (Some r') \<and>
           (\<forall>f. fieldOf f r' =
              (case Raw req (fieldName f) of
                 Some v \<Rightarrow> v
               | None \<Rightarrow>
                   if Operation req = CreateOperation then ''''
                   else (case l of None \<Rightarrow> '''' | Some r \<Rightarrow> fieldOf f r)))"
proof -
  let ?base = "case l of None \<Rightarrow> zeroConfig | Some c \<Rightarrow> c"
  have "\<forall>f. fieldOf f (fst (mergeFields req ?base)) =
              (case Raw req (fieldName f) of
                 Some v \<Rightarrow> v
               | None \<Rightarrow>
                   if Operation req = CreateOperation then ''''
                   else (case l of None \<Rightarrow> '''' | Some r \<Rightarrow> fieldOf f r))"
    by (cases l) (simp_all add: mergeFields_field fieldOf_zeroConfig split: option.splits)
  then show ?thesis
    using createUpdate_success(1,2)[OF assms, of req] by blast
qed

theorem defaulting_follows_operation_witness:
  "stored (configured \<lparr>AccessKey = ''A1'', SecretKey = ''S1'', Endpoint = ''http://custom''\<rparr>) =
     Inr (Some \<lparr>AccessKey = ''A1'', SecretKey = ''S1'', Endpoint = ''http://custom''\<rparr>) \<and>
   stored (snd (pathConfigClientCreateUpdate
      \<lparr>Operation = UpdateOperation, Raw = [''secret_key'' \<mapsto> ''S2'']\<rparr>
      (configured \<lparr>AccessKey = ''A1'', SecretKey = ''S1'', Endpoint = ''http://custom''\<rparr>))) =
     Inr (Some \<lparr>AccessKey = ''A1'', SecretKey = ''S2'', Endpoint = ''http://custom''\<rparr>)"
proof -
  let ?req = "\<lparr>Operation = UpdateOperation, Raw = [''secret_key'' \<mapsto> ''S2'']\<rparr>"
  let ?c = "\<lparr>AccessKey = ''A1'', SecretKey = ''S1'', Endpoint = ''http://custom''\<rparr>"
  let ?s' = "snd (pathConfigClientCreateUpdate ?req (configured ?c))"
  have p: "PutErr (storage (configured ?c)) = None" by (simp add: configured_def)
  from defaulting_follows_operation[OF stored_configured p]
  obtain r' where r': "stored ?s' = Inr (Some r')"
    and fields: "\<forall>f. fieldOf f r' =
              (case Raw ?req (fieldName f) of
                 Some v \<Rightarrow> v
               | None \<Rightarrow>
                   if Operation ?req = CreateOperation then ''''
                   else (case Some ?c of None \<Rightarrow> '''' | Some r \<Rightarrow> fieldOf f r))"
    by blast
  have "r' = \<lparr>AccessKey = ''A1'', SecretKey = ''S2'', Endpoint = ''http://custom''\<rparr>"
    using fields[rule_format, of FAccessKey] fields[rule_format, of FSecretKey]
      fields[rule_format, of FEndpoint]
    by (cases r') simp
  with r' show ?thesis by (simp add: stored_configured)
qed

text \<open>
  C3, the claim as it stands fails: a create from the unconfigured state that supplies
  only the access key, as the empty string, succeeds and flushes nothing.
\<close>

theorem create_empty_access_key_no_flush:
  "fst (pathConfigClientCreateUpdate
          \<lparr>Operation = CreateOperation, Raw = [''access_key'' \<mapsto> '''']\<rparr> unconfigured) = Inr None \<and>
   stored (snd (pathConfigClientCreateUpdate
          \<lparr>Operation = CreateOperation, Raw = [''access_key'' \<mapsto> '''']\<rparr> unconfigured)) =
     Inr (Some \<lparr>AccessKey = '''', SecretKey = '''', Endpoint = ''''\<rparr>) \<and>
   flushCount (snd (pathConfigClientCreateUpdate
          \<lparr>Operation = CreateOperation, Raw = [''access_key'' \<mapsto> '''']\<rparr> unconfigured)) = 0 \<and>
   Flush \<notin> set (trace (snd (pathConfigClientCreateUpdate
          \<lparr>Operation = CreateOperation, Raw = [''access_key'' \<mapsto> '''']\<rparr> unconfigured)))"
proof -
  let ?req = "\<lparr>Operation = CreateOperation, Raw = [''access_key'' \<mapsto> '''']\<rparr>"
  have p: "PutErr (storage unconfigured) = None" by (simp add: unconfigured_def)
  have f: "fst (mergeFields ?req zeroConfig) = \<lparr>AccessKey = '''', SecretKey = '''', Endpoint = ''''\<rparr>"
    using mergeFields_AccessKey[of ?req zeroConfig]
      mergeFields_SecretKey[of ?req zeroConfig] mergeFields_Endpoint[of ?req zeroConfig]
    by (cases "fst (mergeFields ?req zeroConfig)") (simp add: zeroConfig_def)
  have c: "\<not> snd (mergeFields ?req zeroConfig)"
    by (simp add: mergeFields_changed zeroConfig_def)
  have t: "trace unconfigured = []" by (simp add: unconfigured_def)
  show ?thesis
    using createUpdate_success[OF stored_unconfigured p, of ?req] f c flushCount_unconfigured t
    by simp
qed

text \<open>
  C3, amended: an Upsert on a backend with no record that supplies only the access key
  stores that access key with an empty secret key and an empty endpoint, and flushes the
  cached clients once when the access key is not the empty string, and not at all when
  it is.
\<close>

theorem create_with_access_key:
  assumes "stored s = Inr None" and "PutErr (storage s) = None"
    and "Raw req ''access_key'' = Some a"
    and "Raw req ''secret_key'' = None" and "Raw req ''endpoint'' = None"
  shows "fst (pathConfigClientCreateUpdate req s) = Inr None \<and>
         stored (snd (pathConfigClientCreateUpdate req s)) =
           Inr (Some \<lparr>AccessKey = a, SecretKey = '''', Endpoint = ''''\<rparr>) \<and>
         flushCount (snd (pathConfigClientCreateUpdate req s)) =
           flushCount s + (if a = '''' then 0 else 1)"
proof -
  let ?m = "mergeFields req zeroConfig"
  have f: "fst ?m = \<lparr>AccessKey = a, SecretKey = '''', Endpoint = ''''\<rparr>"
    using assms(3-5) mergeFields_AccessKey[of req zeroConfig]
      mergeFields_SecretKey[of req zeroConfig] mergeFields_Endpoint[of req zeroConfig]
    by (cases "fst ?m") (simp add: zeroConfig_def)
  have c: "snd ?m = (a \<noteq> '''')"
    using assms(3-5) by (auto simp add: mergeFields_changed zeroConfig_def)
  show ?thesis
    using createUpdate_success[OF assms(1,2), of req] f c by simp
qed

theorem create_with_access_key_witness:
  "stored unconfigured = Inr None \<and>
   fst (pathConfigClientCreateUpdate
          \<lparr>Operation = CreateOperation, Raw = [''access_key'' \<mapsto> ''A1'']\<rparr> unconfigured) = Inr None \<and>
   stored (snd (pathConfigClientCreateUpdate
          \<lparr>Operation = CreateOperation, Raw = [''access_key'' \<mapsto> ''A1'']\<rparr> unconfigured)) =
     Inr (Some \<lparr>AccessKey = ''A1'', SecretKey = '''', Endpoint = ''''\<rparr>) \<and>
   flushCount (snd (pathConfigClientCreateUpdate
          \<lparr>Operation = CreateOperation, Raw = [''access_key'' \<mapsto> ''A1'']\<rparr> unconfigured)) = 1"
proof -
  let ?req = "\<lparr>Operation = CreateOperation, Raw = [''access_key'' \<mapsto> ''A1'']\<rparr>"
  have p: "PutErr (storage unconfigured) = None" by (simp add: unconfigured_def)
  have a: "Raw ?req ''access_key'' = Some ''A1''" by simp
  have b: "Raw ?req ''secret_key'' = None" by simp
  have c: "Raw ?req ''endpoint'' = None" by simp
  show ?thesis
    using create_with_access_key[OF stored_unconfigured p a b c]
      stored_unconfigured flushCount_unconfigured
    by simp
qed

text \<open>
  C4: a call with operation kind \<open>CreateOperation\<close> on a stored record stores a record
  whose every field is the supplied value, or the empty string when none is supplied,
  whatever was stored. The changed flag is set exactly when a supplied value differs
  from the stored one, and the clients are flushed exactly then: the overwrites of the
  fields that are not supplied flush nothing.
\<close>

theorem create_on_existing_record:
  assumes "Operation req = CreateOperation"
    and "stored s = Inr (Some r)" and "PutErr (storage s) = None"
  shows "\<exists>r'. fst (pathConfigClientCreateUpdate req s) = Inr None \<and>
           stored (snd (pathConfigClientCreateUpdate req s)) = Inr (Some r') \<and>
           (\<forall>f. fieldOf f r' = (case Raw req (fieldName f) of Some v \<Rightarrow> v | None \<Rightarrow> '''')) \<and>
           snd (mergeFields req r) = (\<exists>f v. Raw req (fieldName f) = Some v \<and> v \<noteq> fieldOf f r) \<and>
           flushCount (snd (pathConfigClientCreateUpdate req s)) =
             flushCount s + (if \<exists>f v. Raw req (fieldName f) = Some v \<and> v \<noteq> fieldOf f r then 1 else 0)"
proof -
  let ?r' = "fst (mergeFields req r)"
  have fields: "\<forall>f. fieldOf f ?r' = (case Raw req (fieldName f) of Some v \<Rightarrow> v | None \<Rightarrow> '''')"
    using assms(1) by (simp add: mergeFields_field split: option.splits)
  have changed: "snd (mergeFields req r) = (\<exists>f v. Raw req (fieldName f) = Some v \<and> v \<noteq> fieldOf f r)"
    by (rule mergeFields_changed_field)
  have "fst (pathConfigClientCreateUpdate req s) = Inr None"
    and "stored (snd (pathConfigClientCreateUpdate req s)) = Inr (Some ?r')"
    and "flushCount (snd (pathConfigClientCreateUpdate req s)) =
           flushCount s + (if snd (mergeFields req r) then 1 else 0)"
    using createUpdate_success[OF assms(2,3), of req] by simp_all
  with fields changed show ?thesis by auto
qed

theorem create_on_existing_record_witness:
  "stored (configured \<lparr>AccessKey = ''A1'', SecretKey = ''S1'', Endpoint = ''http://custom''\<rparr>) =
     Inr (Some \<lparr>AccessKey = ''A1'', SecretKey = ''S1'', Endpoint = ''http://custom''\<rparr>) \<and>
   stored (snd (pathConfigClientCreateUpdate
      \<lparr>Operation = CreateOperation, Raw = [''access_key'' \<mapsto> ''A1'']\<rparr>
      (configured \<lparr>AccessKey = ''A1'', SecretKey = ''S1'', Endpoint = ''http://custom''\<rparr>))) =
     Inr (Some \<lparr>AccessKey = ''A1'', SecretKey = '''', Endpoint = ''''\<rparr>) \<and>
   flushCount (snd (pathConfigClientCreateUpdate
      \<lparr>Operation = CreateOperation, Raw = [''access_key'' \<mapsto> ''A1'']\<rparr>
      (configured \<lparr>AccessKey = ''A1'', SecretKey = ''S1'', Endpoint = ''http://custom''\<rparr>))) = 0"
proof -
  let ?req = "\<lparr>Operation = CreateOperation, Raw = [''access_key'' \<mapsto> ''A1'']\<rparr>"
  let ?c = "\<lparr>AccessKey = ''A1'', SecretKey = ''S1'', Endpoint = ''http://custom''\<rparr>"
  let ?s' = "snd (pathConfigClientCreateUpdate ?req (configured ?c))"
  have o: "Operation ?req = CreateOperation" by simp
  have p: "PutErr (storage (configured ?c)) = None" by (simp add: configured_def)
  have same: "\<not> (\<exists>f v. Raw ?req (fieldName f) = Some v \<and> v \<noteq> fieldOf f ?c)"
  proof
    assume "\<exists>f v. Raw ?req (fieldName f) = Some v \<and> v \<noteq> fieldOf f ?c"
    then obtain f v where "Raw ?req (fieldName f) = Some v" "v \<noteq> fieldOf f ?c" by blast
    then show False by (cases f) simp_all
  qed
  from create_on_existing_record[OF o stored_configured p]
  obtain r' where r': "stored ?s' = Inr (Some r')"
    and fields: "\<forall>f. fieldOf f r' = (case Raw ?req (fieldName f) of Some v \<Rightarrow> v | None \<Rightarrow> '''')"
    and fl: "flushCount ?s' = flushCount (configured ?c) +
        (if \<exists>f v. Raw ?req (fieldName f) = Some v \<and> v \<noteq> fieldOf f ?c then 1 else 0)"
    by blast
  have "r' = \<lparr>AccessKey = ''A1'', SecretKey = '''', Endpoint = ''''\<rparr>"
    using fields[rule_format, of FAccessKey] fields[rule_format, of FSecretKey]
      fields[rule_format, of FEndpoint]
    by (cases r') simp
  with r' fl same show ?thesis
    by (simp add: stored_configured flushCount_configured)
qed

text \<open>
  C5: whether a record is stored or not, a Delete whose storage delete succeeds returns
  no error, leaves no record under the key, flushes the cached clients exactly once and
  leaves no client cached.
\<close>

theorem delete_succeeds:
  assumes "DeleteErr (storage s) = None"
  shows "fst (pathConfigClientDelete req s) = Inr None \<and>
         entries (storage (snd (pathConfigClientDelete req s))) ''config/client'' = None \<and>
         flushCount (snd (pathConfigClientDelete req s)) = flushCount s + 1 \<and>
         clientCache (snd (pathConfigClientDelete req s)) = []"
proof -
  let ?s' = "snd (pathConfigClientDelete req s)"
  note eq = delete_ok[OF assms, of req]
  have "count_list (trace ?s') Flush = count_list (trace s) Flush + 1"
    by (simp add: eq)
  then have "flushCount ?s' = flushCount s + 1"
    by (simp add: flushCount_def)
  moreover have "fst (pathConfigClientDelete req s) = Inr None"
    and "entries (storage ?s') ''config/client'' = None"
    and "clientCache ?s' = []"
    by (simp_all add: eq)
  ultimately show ?thesis by simp
qed

theorem delete_succeeds_witness:
  "(stored unconfigured = Inr None \<and>
    fst (pathConfigClientDelete \<lparr>Operation = DeleteOperation, Raw = Map.empty\<rparr> unconfigured) = Inr None \<and>
    flushCount (snd (pathConfigClientDelete \<lparr>Operation = DeleteOperation, Raw = Map.empty\<rparr> unconfigured)) = 1) \<and>
   (stored (configured \<lparr>AccessKey = ''A1'', SecretKey = '''', Endpoint = ''http://custom''\<rparr>) =
      Inr (Some \<lparr>AccessKey = ''A1'', SecretKey = '''', Endpoint = ''http://custom''\<rparr>) \<and>
    fst (pathConfigClientDelete \<lparr>Operation = DeleteOperation, Raw = Map.empty\<rparr>
      (configured \<lparr>AccessKey = ''A1'', SecretKey = '''', Endpoint = ''http://custom''\<rparr>)) = Inr None \<and>
    entries (storage (snd (pathConfigClientDelete \<lparr>Operation = DeleteOperation, Raw = Map.empty\<rparr>
      (configured \<lparr>AccessKey = ''A1'', SecretKey = '''', Endpoint = ''http://custom''\<rparr>)))) ''config/client'' = None \<and>
    flushCount (snd (pathConfigClientDelete \<lparr>Operation = DeleteOperation, Raw = Map.empty\<rparr>
      (configured \<lparr>AccessKey = ''A1'', SecretKey = '''', Endpoint = ''http://custom''\<rparr>))) = 1)"
proof -
  let ?req = "\<lparr>Operation = DeleteOperation, Raw = Map.empty\<rparr>"
  let ?c = "\<lparr>AccessKey = ''A1'', SecretKey = '''', Endpoint = ''http://custom''\<rparr>"
  have u: "DeleteErr (storage unconfigured) = None" by (simp add: unconfigured_def)
  have c: "DeleteErr (storage (configured ?c)) = None" by (simp add: configured_def)
  show ?thesis
    using delete_succeeds[OF u, of ?req] delete_succeeds[OF c, of ?req]
      flushCount_unconfigured flushCount_configured[of ?c] stored_configured[of ?c]
      stored_unconfigured
    by simp
qed

text \<open>
  C6, the claim as it stands fails: after an update that supplies the access key, a
  second call with the same access key but of kind \<open>CreateOperation\<close> flushes
  nothing, and yet resets the stored secret key to the empty string.
\<close>

theorem second_upsert_resets_fields:
  "stored (snd (pathConfigClientCreateUpdate
      \<lparr>Operation = UpdateOperation, Raw = [''access_key'' \<mapsto> ''A1'']\<rparr>
      (configured \<lparr>AccessKey = ''A0'', SecretKey = ''S1'', Endpoint = ''''\<rparr>))) =
     Inr (Some \<lparr>AccessKey = ''A1'', SecretKey = ''S1'', Endpoint = ''''\<rparr>) \<and>
   stored (snd (pathConfigClientCreateUpdate
      \<lparr>Operation = CreateOperation, Raw = [''access_key'' \<mapsto> ''A1'']\<rparr>
      (snd (pathConfigClientCreateUpdate
        \<lparr>Operation = UpdateOperation, Raw = [''access_key'' \<mapsto> ''A1'']\<rparr>
        (configured \<lparr>AccessKey = ''A0'', SecretKey = ''S1'', Endpoint = ''''\<rparr>))))) =
     Inr (Some \<lparr>AccessKey = ''A1'', SecretKey = '''', Endpoint = ''''\<rparr>) \<and>
   flushCount (snd (pathConfigClientCreateUpdate
      \<lparr>Operation = CreateOperation, Raw = [''access_key'' \<mapsto> ''A1'']\<rparr>
      (snd (pathConfigClientCreateUpdate
        \<lparr>Operation = UpdateOperation, Raw = [''access_key'' \<mapsto> ''A1'']\<rparr>
        (configured \<lparr>AccessKey = ''A0'', SecretKey = ''S1'', Endpoint = ''''\<rparr>))))) =
     flushCount (snd (pathConfigClientCreateUpdate
        \<lparr>Operation = UpdateOperation, Raw = [''access_key'' \<mapsto> ''A1'']\<rparr>
        (configured \<lparr>AccessKey = ''A0'', SecretKey = ''S1'', Endpoint = ''''\<rparr>)))"
proof -
  let ?q1 = "\<lparr>Operation = UpdateOperation, Raw = [''access_key'' \<mapsto> ''A1'']\<rparr>"
  let ?q2 = "\<lparr>Operation = CreateOperation, Raw = [''access_key'' \<mapsto> ''A1'']\<rparr>"
  let ?c = "\<lparr>AccessKey = ''A0'', SecretKey = ''S1'', Endpoint = ''''\<rparr>"
  let ?c1 = "\<lparr>AccessKey = ''A1'', SecretKey = ''S1'', Endpoint = ''''\<rparr>"
  let ?s1 = "snd (pathConfigClientCreateUpdate ?q1 (configured ?c))"
  have p: "PutErr (storage (configured ?c)) = None" by (simp add: configured_def)
  have s1: "stored ?s1 = Inr (Some ?c1)"
    using createUpdate_success(2)[OF stored_configured p, of ?q1]
    by (simp add: mergeFields_record)
  have p1: "PutErr (storage ?s1) = None"
    using createUpdate_faults[of ?q1 "configured ?c"] p by simp
  have s2: "stored (snd (pathConfigClientCreateUpdate ?q2 ?s1)) =
      Inr (Some \<lparr>AccessKey = ''A1'', SecretKey = '''', Endpoint = ''''\<rparr>)"
    using createUpdate_success(2)[OF s1 p1, of ?q2]
    by (simp add: mergeFields_record)
  have f2: "flushCount (snd (pathConfigClientCreateUpdate ?q2 ?s1)) = flushCount ?s1"
    using createUpdate_success(3)[OF s1 p1, of ?q2]
    by (simp add: mergeFields_changed)
  from s1 s2 f2 show ?thesis by simp
qed

text \<open>
  C6, amended: an Upsert on a stored record whose supplied values are all identical to
  the stored ones sets no changed flag, flushes nothing and still executes the storage
  Put. It leaves the record equal to its prior value exactly when its operation kind is
  not \<open>CreateOperation\<close> or every field it does not supply is already empty.
\<close>

theorem repeated_upsert:
  assumes "stored s = Inr (Some r)" and "PutErr (storage s) = None"
    and "\<forall>f v. Raw req (fieldName f) = Some v \<longrightarrow> v = fieldOf f r"
  shows "fst (pathConfigClientCreateUpdate req s) = Inr None \<and>
         \<not> snd (mergeFields req r) \<and>
         flushCount (snd (pathConfigClientCreateUpdate req s)) = flushCount s \<and>
         clientCache (snd (pathConfigClientCreateUpdate req s)) = clientCache s \<and>
         trace (snd (pathConfigClientCreateUpdate req s)) =
           trace s @ [Lock, StorageGet ''config/client'',
                      StoragePut ''config/client'' (encode (fst (mergeFields req r))), Unlock] \<and>
         (stored (snd (pathConfigClientCreateUpdate req s)) = Inr (Some r) \<longleftrightarrow>
            Operation req \<noteq> CreateOperation \<or>
            (\<forall>f. Raw req (fieldName f) = None \<longrightarrow> fieldOf f r = ''''))"
proof -
  let ?r' = "fst (mergeFields req r)"
  have unchanged: "\<not> snd (mergeFields req r)"
    using assms(3) by (auto simp add: mergeFields_changed_field)
  have same: "?r' = r \<longleftrightarrow>
      Operation req \<noteq> CreateOperation \<or>
      (\<forall>f. Raw req (fieldName f) = None \<longrightarrow> fieldOf f r = '''')"
  proof
    assume eq: "?r' = r"
    show "Operation req \<noteq> CreateOperation \<or>
      (\<forall>f. Raw req (fieldName f) = None \<longrightarrow> fieldOf f r = '''')"
    proof (cases "Operation req = CreateOperation")
      case True
      have "\<forall>f. Raw req (fieldName f) = None \<longrightarrow> fieldOf f r = ''''"
      proof (intro allI impI)
        fix f assume n: "Raw req (fieldName f) = None"
        have "fieldOf f ?r' = ''''" using True n by (simp add: mergeFields_field)
        with eq show "fieldOf f r = ''''" by simp
      qed
      then show ?thesis by blast
    next
      case False
      then show ?thesis by blast
    qed
  next
    assume c: "Operation req \<noteq> CreateOperation \<or>
      (\<forall>f. Raw req (fieldName f) = None \<longrightarrow> fieldOf f r = '''')"
    show "?r' = r"
    proof (rule config_eqI)
      fix f
      show "fieldOf f ?r' = fieldOf f r"
      proof (cases "Raw req (fieldName f)")
        case None
        with c show ?thesis by (auto simp add: mergeFields_field)
      next
        case (Some v)
        with assms(3) show ?thesis by (simp add: mergeFields_field)
      qed
    qed
  qed
  have st: "stored (snd (pathConfigClientCreateUpdate req s)) = Inr (Some ?r')"
    using createUpdate_success(2)[OF assms(1,2), of req] by simp
  have "stored (snd (pathConfigClientCreateUpdate req s)) = Inr (Some r) \<longleftrightarrow> ?r' = r"
    by (simp add: st)
  with same have iff: "stored (snd (pathConfigClientCreateUpdate req s)) = Inr (Some r) \<longleftrightarrow>
      Operation req \<noteq> CreateOperation \<or>
      (\<forall>f. Raw req (fieldName f) = None \<longrightarrow> fieldOf f r = '''')"
    by simp
  show ?thesis
    using createUpdate_success(1,3,4,5)[OF assms(1,2), of req] unchanged iff by simp
qed

theorem repeated_upsert_witness:
  "stored (configured \<lparr>AccessKey = ''A1'', SecretKey = '''', Endpoint = ''http://custom''\<rparr>) =
     Inr (Some \<lparr>AccessKey = ''A1'', SecretKey = '''', Endpoint = ''http://custom''\<rparr>) \<and>
   stored (snd (pathConfigClientCreateUpdate
      \<lparr>Operation = UpdateOperation, Raw = [''access_key'' \<mapsto> ''A1'']\<rparr>
      (configured \<lparr>AccessKey = ''A1'', SecretKey = '''', Endpoint = ''http://custom''\<rparr>))) =
     Inr (Some \<lparr>AccessKey = ''A1'', SecretKey = '''', Endpoint = ''http://custom''\<rparr>) \<and>
   flushCount (snd (pathConfigClientCreateUpdate
      \<lparr>Operation = UpdateOperation, Raw = [''access_key'' \<mapsto> ''A1'']\<rparr>
      (configured \<lparr>AccessKey = ''A1'', SecretKey = '''', Endpoint = ''http://custom''\<rparr>))) = 0 \<and>
   trace (snd (pathConfigClientCreateUpdate
      \<lparr>Operation = UpdateOperation, Raw = [''access_key'' \<mapsto> ''A1'']\<rparr>
      (configured \<lparr>AccessKey = ''A1'', SecretKey = '''', Endpoint = ''http://custom''\<rparr>))) =
     [Lock, StorageGet ''config/client'',
      StoragePut ''config/client''
        (encode \<lparr>AccessKey = ''A1'', SecretKey = '''', Endpoint = ''http://custom''\<rparr>),
      Unlock]"
proof -
  let ?req = "\<lparr>Operation = UpdateOperation, Raw = [''access_key'' \<mapsto> ''A1'']\<rparr>"
  let ?c = "\<lparr>AccessKey = ''A1'', SecretKey = '''', Endpoint = ''http://custom''\<rparr>"
  have p: "PutErr (storage (configured ?c)) = None" by (simp add: configured_def)
  have same: "\<forall>f v. Raw ?req (fieldName f) = Some v \<longrightarrow> v = fieldOf f ?c"
  proof (intro allI impI)
    fix f v assume "Raw ?req (fieldName f) = Some v"
    then show "v = fieldOf f ?c" by (cases f) simp_all
  qed
  have t: "trace (configured ?c) = []" by (simp add: configured_def)
  show ?thesis
    using repeated_upsert[OF stored_configured p same] t
    by (simp add: stored_configured flushCount_configured mergeFields_record)
qed

text \<open>
  C7: an Upsert of kind \<open>UpdateOperation\<close> on a stored record that supplies one field
  with a value differing from the stored one, and no other field or only stored values
  for the others, flushes the cached clients exactly once, stores the new value in that
  field and leaves the other two fields as they were.
\<close>

theorem update_one_field:
  assumes "Operation req = UpdateOperation"
    and "stored s = Inr (Some r)" and "PutErr (storage s) = None"
    and "Raw req (fieldName f) = Some v" and "v \<noteq> fieldOf f r"
    and "\<forall>g. g \<noteq> f \<longrightarrow>
           Raw req (fieldName g) = None \<or> Raw req (fieldName g) = Some (fieldOf g r)"
  shows "\<exists>r'. fst (pathConfigClientCreateUpdate req s) = Inr None \<and>
           stored (snd (pathConfigClientCreateUpdate req s)) = Inr (Some r') \<and>
           fieldOf f r' = v \<and>
           (\<forall>g. g \<noteq> f \<longrightarrow> fieldOf g r' = fieldOf g r) \<and>
           flushCount (snd (pathConfigClientCreateUpdate req s)) = flushCount s + 1"
proof -
  let ?r' = "fst (mergeFields req r)"
  have f: "fieldOf f ?r' = v"
    using assms(4) by (simp add: mergeFields_field)
  have others: "\<forall>g. g \<noteq> f \<longrightarrow> fieldOf g ?r' = fieldOf g r"
  proof (intro allI impI)
    fix g assume "g \<noteq> f"
    with assms(6) have "Raw req (fieldName g) = None \<or> Raw req (fieldName g) = Some (fieldOf g r)"
      by blast
    then show "fieldOf g ?r' = fieldOf g r"
      using assms(1) by (auto simp add: mergeFields_field)
  qed
  have changed: "snd (mergeFields req r)"
    using assms(4,5) by (auto simp add: mergeFields_changed_field)
  show ?thesis
    using createUpdate_success(1,2,3)[OF assms(2,3), of req] f others changed by auto
qed

theorem update_one_field_witness:
  "stored (configured \<lparr>AccessKey = ''A1'', SecretKey = '''', Endpoint = ''''\<rparr>) =
     Inr (Some \<lparr>AccessKey = ''A1'', SecretKey = '''', Endpoint = ''''\<rparr>) \<and>
   stored (snd (pathConfigClientCreateUpdate
      \<lparr>Operation = UpdateOperation, Raw = [''endpoint'' \<mapsto> ''http://custom'']\<rparr>
      (configured \<lparr>AccessKey = ''A1'', SecretKey = '''', Endpoint = ''''\<rparr>))) =
     Inr (Some \<lparr>AccessKey = ''A1'', SecretKey = '''', Endpoint = ''http://custom''\<rparr>) \<and>
   flushCount (snd (pathConfigClientCreateUpdate
      \<lparr>Operation = UpdateOperation, Raw = [''endpoint'' \<mapsto> ''http://custom'']\<rparr>
      (configured \<lparr>AccessKey = ''A1'', SecretKey = '''', Endpoint = ''''\<rparr>))) = 1"
proof -
  let ?req = "\<lparr>Operation = UpdateOperation, Raw = [''endpoint'' \<mapsto> ''http://custom'']\<rparr>"
  let ?c = "\<lparr>AccessKey = ''A1'', SecretKey = '''', Endpoint = ''''\<rparr>"
  let ?s' = "snd (pathConfigClientCreateUpdate ?req (configured ?c))"
  have o: "Operation ?req = UpdateOperation" by simp
  have p: "PutErr (storage (configured ?c)) = None" by (simp add: configured_def)
  have v: "Raw ?req (fieldName FEndpoint) = Some ''http://custom''" by simp
  have d: "''http://custom'' \<noteq> fieldOf FEndpoint ?c" by simp
  have rest: "\<forall>g. g \<noteq> FEndpoint \<longrightarrow>
           Raw ?req (fieldName g) = None \<or> Raw ?req (fieldName g) = Some (fieldOf g ?c)"
  proof (intro allI impI)
    fix g :: field assume "g \<noteq> FEndpoint"
    then show "Raw ?req (fieldName g) = None \<or> Raw ?req (fieldName g) = Some (fieldOf g ?c)"
      by (cases g) simp_all
  qed
  from update_one_field[OF o stored_configured p v d rest]
  obtain r' where r': "stored ?s' = Inr (Some r')"
    and e: "fieldOf FEndpoint r' = ''http://custom''"
    and others: "\<forall>g. g \<noteq> FEndpoint \<longrightarrow> fieldOf g r' = fieldOf g ?c"
    and fl: "flushCount ?s' = flushCount (configured ?c) + 1"
    by blast
  have "r' = \<lparr>AccessKey = ''A1'', SecretKey = '''', Endpoint = ''http://custom''\<rparr>"
    using e others[rule_format, of FAccessKey] others[rule_format, of FSecretKey]
    by (cases r') simp
  with r' fl show ?thesis
    by (simp add: stored_configured flushCount_configured)
qed

text \<open>
  C8: when the storage Get fails, or the stored bytes do not decode, Read and Upsert
  return that error; when the storage Put fails, Upsert returns that error; when the
  storage Delete fails, Delete returns that error. A call of Read, Upsert or Delete that
  returns an error has flushed nothing and has left the cached clients and the storage
  as they were.
\<close>

theorem errors_propagate:
  "(GetErr (storage s) = Some e \<longrightarrow>
      fst (pathConfigClientRead req s) = Inl e \<and>
      fst (pathConfigClientCreateUpdate req s) = Inl e) \<and>
   (GetErr (storage s) = None \<and> entries (storage s) ''config/client'' = Some b \<and>
    DecodeJSON \<lparr>Key = ''config/client'', Value = b\<rparr> = Inl e \<longrightarrow>
      fst (pathConfigClientRead req s) = Inl e \<and>
      fst (pathConfigClientCreateUpdate req s) = Inl e) \<and>
   (stored s = Inr l \<and> PutErr (storage s) = Some e \<longrightarrow>
      fst (pathConfigClientCreateUpdate req s) = Inl e) \<and>
   (DeleteErr (storage s) = Some e \<longrightarrow>
      fst (pathConfigClientDelete req s) = Inl e) \<and>
   (\<forall>h \<in> {pathConfigClientRead, pathConfigClientCreateUpdate, pathConfigClientDelete}.
      \<forall>e'. fst (h req s) = Inl e' \<longrightarrow>
        flushCount (snd (h req s)) = flushCount s \<and>
        clientCache (snd (h req s)) = clientCache s \<and>
        storage (snd (h req s)) = storage s)"
proof (intro conjI impI)
  assume "GetErr (storage s) = Some e"
  then have "stored s = Inl e" by (rule stored_GetErr)
  then show "fst (pathConfigClientRead req s) = Inl e"
    and "fst (pathConfigClientCreateUpdate req s) = Inl e"
    by (simp_all add: read_eq createUpdate_load_error)
next
  assume "GetErr (storage s) = None \<and> entries (storage s) ''config/client'' = Some b \<and>
    DecodeJSON \<lparr>Key = ''config/client'', Value = b\<rparr> = Inl e"
  then have "stored s = Inl e" by (simp add: stored_corrupt)
  then show "fst (pathConfigClientRead req s) = Inl e"
    and "fst (pathConfigClientCreateUpdate req s) = Inl e"
    by (simp_all add: read_eq createUpdate_load_error)
next
  assume "stored s = Inr l \<and> PutErr (storage s) = Some e"
  then show "fst (pathConfigClientCreateUpdate req s) = Inl e"
    by (simp add: createUpdate_put_error)
next
  assume "DeleteErr (storage s) = Some e"
  then show "fst (pathConfigClientDelete req s) = Inl e"
    by (simp add: delete_error)
next
  show "\<forall>h \<in> {pathConfigClientRead, pathConfigClientCreateUpdate, pathConfigClientDelete}.
      \<forall>e'. fst (h req s) = Inl e' \<longrightarrow>
        flushCount (snd (h req s)) = flushCount s \<and>
        clientCache (snd (h req s)) = clientCache s \<and>
        storage (snd (h req s)) = storage s"
    using read_error_no_effect createUpdate_error_no_effect delete_error_no_effect
    by blast
qed

theorem errors_propagate_witness:
  "(fst (pathConfigClientRead \<lparr>Operation = ReadOperation, Raw = Map.empty\<rparr>
       (failing (Some (StorageError ''get failed'')) None None unconfigured)) =
      Inl (StorageError ''get failed'') \<and>
    fst (pathConfigClientCreateUpdate \<lparr>Operation = CreateOperation, Raw = [''access_key'' \<mapsto> ''A1'']\<rparr>
       (failing (Some (StorageError ''get failed'')) None None unconfigured)) =
      Inl (StorageError ''get failed'') \<and>
    flushCount (snd (pathConfigClientCreateUpdate \<lparr>Operation = CreateOperation, Raw = [''access_key'' \<mapsto> ''A1'']\<rparr>
       (failing (Some (StorageError ''get failed'')) None None unconfigured))) = 0) \<and>
   (fst (pathConfigClientRead \<lparr>Operation = ReadOperation, Raw = Map.empty\<rparr> corrupted) =
      Inl (DecodeError ''garbage'') \<and>
    fst (pathConfigClientCreateUpdate \<lparr>Operation = UpdateOperation, Raw = [''access_key'' \<mapsto> ''A1'']\<rparr> corrupted) =
      Inl (DecodeError ''garbage'') \<and>
    flushCount (snd (pathConfigClientCreateUpdate \<lparr>Operation = UpdateOperation, Raw = [''access_key'' \<mapsto> ''A1'']\<rparr> corrupted)) = 0) \<and>
   (fst (pathConfigClientCreateUpdate \<lparr>Operation = CreateOperation, Raw = [''access_key'' \<mapsto> ''A1'']\<rparr>
       (failing None (Some (StorageError ''put failed'')) None unconfigured)) =
      Inl (StorageError ''put failed'') \<and>
    flushCount (snd (pathConfigClientCreateUpdate \<lparr>Operation = CreateOperation, Raw = [''access_key'' \<mapsto> ''A1'']\<rparr>
       (failing None (Some (StorageError ''put failed'')) None unconfigured))) = 0) \<and>
   (fst (pathConfigClientDelete \<lparr>Operation = DeleteOperation, Raw = Map.empty\<rparr>
       (failing None None (Some (StorageError ''delete failed'')) unconfigured)) =
      Inl (StorageError ''delete failed'') \<and>
    flushCount (snd (pathConfigClientDelete \<lparr>Operation = DeleteOperation, Raw = Map.empty\<rparr>
       (failing None None (Some (StorageError ''delete failed'')) unconfigured))) = 0)"
proof -
  let ?rr = "\<lparr>Operation = ReadOperation, Raw = Map.empty\<rparr>"
  let ?rc = "\<lparr>Operation = CreateOperation, Raw = [''access_key'' \<mapsto> ''A1'']\<rparr>"
  let ?ru = "\<lparr>Operation = UpdateOperation, Raw = [''access_key'' \<mapsto> ''A1'']\<rparr>"
  let ?rd = "\<lparr>Operation = DeleteOperation, Raw = Map.empty\<rparr>"
  let ?sg = "failing (Some (StorageError ''get failed'')) None None unconfigured"
  let ?sp = "failing None (Some (StorageError ''put failed'')) None unconfigured"
  let ?sd = "failing None None (Some (StorageError ''delete failed'')) unconfigured"
  have g: "GetErr (storage ?sg) = Some (StorageError ''get failed'')"
    by (simp add: failing_def)
  have fg: "flushCount ?sg = 0" by (simp add: failing_def unconfigured_def flushCount_def)
  have c: "GetErr (storage corrupted) = None \<and>
      entries (storage corrupted) ''config/client'' = Some ''garbage'' \<and>
      DecodeJSON \<lparr>Key = ''config/client'', Value = ''garbage''\<rparr> = Inl (DecodeError ''garbage'')"
    by (simp add: corrupted_def decode_garbage)
  have fc: "flushCount corrupted = 0" by (simp add: corrupted_def flushCount_def)
  have p: "stored ?sp = Inr None \<and> PutErr (storage ?sp) = Some (StorageError ''put failed'')"
    by (simp add: stored_absent failing_def unconfigured_def)
  have fp: "flushCount ?sp = 0" by (simp add: failing_def unconfigured_def flushCount_def)
  have d: "DeleteErr (storage ?sd) = Some (StorageError ''delete failed'')"
    by (simp add: failing_def)
  have fd: "flushCount ?sd = 0" by (simp add: failing_def unconfigured_def flushCount_def)
  have 1: "fst (pathConfigClientRead ?rr ?sg) = Inl (StorageError ''get failed'')"
    using errors_propagate[of ?sg "StorageError ''get failed''" ?rr] g by blast
  have 2: "fst (pathConfigClientCreateUpdate ?rc ?sg) = Inl (StorageError ''get failed'')"
    using errors_propagate[of ?sg "StorageError ''get failed''" ?rc] g by blast
  have 3: "flushCount (snd (pathConfigClientCreateUpdate ?rc ?sg)) = 0"
    using errors_propagate[of ?sg "StorageError ''get failed''" ?rc] 2 fg by simp
  have 4: "fst (pathConfigClientRead ?rr corrupted) = Inl (DecodeError ''garbage'')"
    using errors_propagate[of corrupted "DecodeError ''garbage''" ?rr "''garbage''"] c by blast
  have 5: "fst (pathConfigClientCreateUpdate ?ru corrupted) = Inl (DecodeError ''garbage'')"
    using errors_propagate[of corrupted "DecodeError ''garbage''" ?ru "''garbage''"] c by blast
  have 6: "flushCount (snd (pathConfigClientCreateUpdate ?ru corrupted)) = 0"
    using errors_propagate[of corrupted "DecodeError ''garbage''" ?ru "''garbage''"] 5 fc by simp
  have 7: "fst (pathConfigClientCreateUpdate ?rc ?sp) = Inl (StorageError ''put failed'')"
    using errors_propagate[of ?sp "StorageError ''put failed''" ?rc _ None] p by blast
  have 8: "flushCount (snd (pathConfigClientCreateUpdate ?rc ?sp)) = 0"
    using errors_propagate[of ?sp "StorageError ''put failed''" ?rc _ None] 7 fp by simp
  have 9: "fst (pathConfigClientDelete ?rd ?sd) = Inl (StorageError ''delete failed'')"
    using errors_propagate[of ?sd "StorageError ''delete failed''" ?rd] d by blast
  have 10: "flushCount (snd (pathConfigClientDelete ?rd ?sd)) = 0"
    using errors_propagate[of ?sd "StorageError ''delete failed''" ?rd] 9 fd by simp
  from 1 2 3 4 5 6 7 8 9 10 show ?thesis by simp
qed

text \<open>
  C9: Read changes neither the storage nor the cached clients, and only takes the lock
  in shared mode around one storage Get. When a record is stored, the response maps
  \<open>access_key\<close>, \<open>secret_key\<close> and \<open>endpoint\<close>, and nothing else, to the three
  fields of the record; when none is stored, the response is nil, with no error.
\<close>

theorem read_is_pure:
  "storage (snd (pathConfigClientRead req s)) = storage s \<and>
   clientCache (snd (pathConfigClientRead req s)) = clientCache s \<and>
   trace (snd (pathConfigClientRead req s)) =
     trace s @ [RLock, StorageGet ''config/client'', RUnlock] \<and>
   (stored s = Inr None \<longrightarrow> fst (pathConfigClientRead req s) = Inr None) \<and>
   (stored s = Inr (Some c) \<longrightarrow>
      (\<exists>resp. fst (pathConfigClientRead req s) = Inr (Some resp) \<and>
         Data resp ''access_key'' = Some (AccessKey c) \<and>
         Data resp ''secret_key'' = Some (SecretKey c) \<and>
         Data resp ''endpoint'' = Some (Endpoint c) \<and>
         dom (Data resp) = {''access_key'', ''secret_key'', ''endpoint''}))"
proof -
  have "dom (structsMap c) = {''access_key'', ''secret_key'', ''endpoint''}"
    by (auto simp add: structsMap_def)
  then show ?thesis
    by (simp add: read_eq structsMap_def)
qed

theorem read_is_pure_witness:
  "(stored unconfigured = Inr None \<and>
    fst (pathConfigClientRead \<lparr>Operation = ReadOperation, Raw = Map.empty\<rparr> unconfigured) = Inr None) \<and>
   (stored (configured \<lparr>AccessKey = ''A1'', SecretKey = ''S1'', Endpoint = ''http://custom''\<rparr>) =
      Inr (Some \<lparr>AccessKey = ''A1'', SecretKey = ''S1'', Endpoint = ''http://custom''\<rparr>) \<and>
    (\<exists>resp. fst (pathConfigClientRead \<lparr>Operation = ReadOperation, Raw = Map.empty\<rparr>
        (configured \<lparr>AccessKey = ''A1'', SecretKey = ''S1'', Endpoint = ''http://custom''\<rparr>)) =
          Inr (Some resp) \<and>
       Data resp ''access_key'' = Some ''A1'' \<and>
       Data resp ''secret_key'' = Some ''S1'' \<and>
       Data resp ''endpoint'' = Some ''http://custom''))"
proof -
  let ?req = "\<lparr>Operation = ReadOperation, Raw = Map.empty\<rparr>"
  let ?c = "\<lparr>AccessKey = ''A1'', SecretKey = ''S1'', Endpoint = ''http://custom''\<rparr>"
  show ?thesis
    using read_is_pure[of ?req unconfigured ?c] read_is_pure[of ?req "configured ?c" ?c]
      stored_unconfigured stored_configured[of ?c]
    by auto
qed

text \<open>
  C10: for every record \<open>r\<close>, whatever its three strings (empty ones included), decoding
  the entry that encoding \<open>r\<close> produces gives back \<open>r\<close>.
\<close>

theorem codec_roundtrip:
  "decode (encode r) = Some r \<and>
   (\<exists>entry. StorageEntryJSON ''config/client'' r = Inr entry \<and> DecodeJSON entry = Inr r)"
proof
  show "decode (encode r) = Some r" by (rule decode_encode)
next
  have "StorageEntryJSON ''config/client'' r = Inr \<lparr>Key = ''config/client'', Value = encode r\<rparr>"
    by (simp add: StorageEntryJSON_def)
  moreover have "DecodeJSON \<lparr>Key = ''config/client'', Value = encode r\<rparr> = Inr r"
    by (simp add: DecodeJSON_def decode_encode)
  ultimately show "\<exists>entry. StorageEntryJSON ''config/client'' r = Inr entry \<and> DecodeJSON entry = Inr r"
    by blast
qed

end
